theory Spec2Isabelle
  imports Main
begin

section \<open>The lifespan handshake coordinator (uvicorn/lifespan/on.py)\<close>

text \<open>
  The class \<open>LifespanOn\<close> drives an ASGI application through the lifespan protocol.
  Its methods are coroutines of one asyncio event loop: \<open>startup\<close> and \<open>shutdown\<close> run
  in the caller's task, \<open>main\<close> runs in a task of its own and calls the application,
  which talks back through \<open>send\<close> and \<open>receive\<close>. The loop is single-threaded and
  cooperative, so a coroutine runs without interruption from one suspension point to
  the next; the only suspension points of this file are \<open>Event.wait\<close> on an unset event
  and \<open>Queue.get\<close> on an empty queue.
\<close>

subsection \<open>Data\<close>

text \<open>
  The messages the coordinator puts on \<open>receive_queue\<close>: the dictionaries
  \<open>{"type": "lifespan.startup"}\<close> and \<open>{"type": "lifespan.shutdown"}\<close>.
\<close>

datatype receive_message = LifespanStartup | LifespanShutdown

text \<open>
  A message handed to \<open>send\<close>: a dictionary with the key \<open>"type"\<close> and, optionally,
  the key \<open>"message"\<close>.
\<close>

record send_message =
  mtype :: string
  mmessage :: "string option"

text \<open>
  Exceptions. \<open>AssertionError\<close> carries the message of the failed \<open>assert\<close> (empty when
  the statement gives none); \<open>CancelledError\<close> is what asyncio throws into a cancelled
  task; \<open>OtherError\<close> stands for whatever else the application raises.
\<close>

datatype exc = AssertionError string | CancelledError | OtherError string

definition STATE_TRANSITION_ERROR :: string where
  "STATE_TRANSITION_ERROR = ''Got invalid state transition on lifespan protocol.''"

text \<open>
  What the methods write: records handed to \<open>self.logger\<close> (level, text and, for
  \<open>exc_info\<close>, the exception), and the lines they \<open>print\<close>, one tag for each \<open>print\<close>
  statement of the file (the tag of the one in \<open>send\<close> carries the type it shows).
\<close>

datatype level = INFO | ERROR

type_synonym log_record = "level \<times> string \<times> exc option"

datatype printed =
    PrintStartupBegin
  | PrintStartupDone
  | PrintShutdown
  | PrintMainApp
  | PrintSendType string
  | PrintOkk

text \<open>
  The application, as far as the coordinator can see it. It returns; it raises; it
  calls \<open>send\<close> and goes on when the call returns (\<open>Send\<close>: an assertion failure
  of \<open>send\<close> leaves the application as it is; \<open>TrySend\<close>: the application catches
  it and goes on with its last argument); or it calls \<open>receive\<close> and goes on with
  its first argument on \<open>lifespan.startup\<close>, with its second on
  \<open>lifespan.shutdown\<close>. An application is taken to wait for nothing but
  \<open>receive\<close>: between two calls of \<open>receive\<close> it runs without giving way to
  the loop. An application has finitely many steps; one that never ends and
  never calls \<open>receive\<close> again is outside this type.
\<close>

datatype app =
    Return
  | Raise exc
  | Send send_message app
  | TrySend send_message app app
  | Receive app app

record Config =
  lifespan :: string
  loaded_app :: app

text \<open>
  The fields of a \<open>LifespanOn\<close> object. \<open>startup_event\<close> and \<open>shutdown_event\<close> hold
  the flag of the \<open>asyncio.Event\<close>; \<open>asgi_cleared\<close> says that \<open>self.asgi = None\<close> has
  run; \<open>logger\<close> and \<open>stdout\<close> collect what was logged and printed, oldest first.
\<close>

record LifespanOn =
  config :: Config
  logger :: "log_record list"
  stdout :: "printed list"
  startup_event :: bool
  shutdown_event :: bool
  receive_queue :: "receive_message list"
  error_occured :: bool
  startup_failed :: bool
  shutdown_failed :: bool
  should_exit :: bool
  asgi_cleared :: bool

text \<open>\<open>__init__\<close>, for a configuration that is already loaded.\<close>

definition init :: "Config \<Rightarrow> LifespanOn" where
  "init cfg = \<lparr> config = cfg, logger = [], stdout = [],
      startup_event = False, shutdown_event = False, receive_queue = [],
      error_occured = False, startup_failed = False, shutdown_failed = False,
      should_exit = False, asgi_cleared = False \<rparr>"

definition log_msg :: "level \<Rightarrow> string \<Rightarrow> exc option \<Rightarrow> LifespanOn \<Rightarrow> LifespanOn" where
  "log_msg l t e s = s\<lparr>logger := logger s @ [(l, t, e)]\<rparr>"

definition print :: "printed \<Rightarrow> LifespanOn \<Rightarrow> LifespanOn" where
  "print p s = s\<lparr>stdout := stdout s @ [p]\<rparr>"

subsection \<open>\<open>send\<close>\<close>

text \<open>
  \<open>if message.get("message"): self.logger.error(message["message"])\<close>: an absent or
  empty text logs nothing.
\<close>

definition log_optional_message :: "send_message \<Rightarrow> LifespanOn \<Rightarrow> LifespanOn" where
  "log_optional_message m s =
     (case mmessage m of
        None \<Rightarrow> s
      | Some t \<Rightarrow> if t = [] then s else log_msg ERROR t None s)"

text \<open>
  \<open>send\<close> returns the exception it raises, if any, and the object as it is left. The
  \<open>print\<close> of the first line has happened by the time an assertion fails.
\<close>

definition send :: "send_message \<Rightarrow> LifespanOn \<Rightarrow> exc option \<times> LifespanOn" where
  "send m s0 =
     (let s = print (PrintSendType (mtype m)) s0 in
      if mtype m \<notin> set [''lifespan.startup.complete'', ''lifespan.startup.failed'',
                         ''lifespan.shutdown.complete'', ''lifespan.shutdown.failed'']
      then (Some (AssertionError []), s)
      else if mtype m = ''lifespan.startup.complete'' then
        (if startup_event s then (Some (AssertionError STATE_TRANSITION_ERROR), s)
         else if shutdown_event s then (Some (AssertionError STATE_TRANSITION_ERROR), s)
         else (None, s\<lparr>startup_event := True\<rparr>))
      else if mtype m = ''lifespan.startup.failed'' then
        (if startup_event s then (Some (AssertionError STATE_TRANSITION_ERROR), s)
         else if shutdown_event s then (Some (AssertionError STATE_TRANSITION_ERROR), s)
         else (None, log_optional_message m (s\<lparr>startup_event := True, startup_failed := True\<rparr>)))
      else if mtype m = ''lifespan.shutdown.complete'' then
        (let s1 = print PrintOkk s in
         if \<not> startup_event s1 then (Some (AssertionError STATE_TRANSITION_ERROR), s1)
         else if shutdown_event s1 then (Some (AssertionError STATE_TRANSITION_ERROR), s1)
         else (None, s1\<lparr>shutdown_event := True\<rparr>))
      else if mtype m = ''lifespan.shutdown.failed'' then
        (if \<not> startup_event s then (Some (AssertionError STATE_TRANSITION_ERROR), s)
         else if shutdown_event s then (Some (AssertionError STATE_TRANSITION_ERROR), s)
         else (None, log_optional_message m (s\<lparr>shutdown_event := True, shutdown_failed := True\<rparr>)))
      else (None, s))"


subsection \<open>\<open>receive\<close>\<close>

text \<open>
  \<open>Queue.get\<close> takes the oldest message; on an empty queue the caller is suspended,
  which is the value \<open>None\<close> here.
\<close>

definition receive :: "LifespanOn \<Rightarrow> (receive_message \<times> LifespanOn) option" where
  "receive s =
     (case receive_queue s of
        [] \<Rightarrow> None
      | m # q \<Rightarrow> Some (m, s\<lparr>receive_queue := q\<rparr>))"

subsection \<open>\<open>main\<close>\<close>

text \<open>
  The application runs inside \<open>main\<close> until it returns, raises or is suspended in
  \<open>receive\<close>; when suspended, what is left of it is \<open>Receive k1 k2\<close>.
\<close>

datatype outcome = Returned | Raised exc | Suspended app app

fun run_app :: "app \<Rightarrow> LifespanOn \<Rightarrow> outcome \<times> LifespanOn" where
  "run_app Return s = (Returned, s)"
| "run_app (Raise e) s = (Raised e, s)"
| "run_app (Send m k) s =
     (case send m s of
        (None, s') \<Rightarrow> run_app k s'
      | (Some e, s') \<Rightarrow> (Raised e, s'))"
| "run_app (TrySend m k h) s =
     (case send m s of
        (None, s') \<Rightarrow> run_app k s'
      | (Some e, s') \<Rightarrow> run_app h s')"
| "run_app (Receive k1 k2) s =
     (case receive s of
        None \<Rightarrow> (Suspended k1 k2, s)
      | Some (m, s') \<Rightarrow>
          if m = LifespanStartup then run_app k1 s' else run_app k2 s')"

text \<open>The \<open>except BaseException\<close> clause and the \<open>finally\<close> clause of \<open>main\<close>.\<close>

definition main_except :: "exc \<Rightarrow> LifespanOn \<Rightarrow> LifespanOn" where
  "main_except e s0 =
     (let s = s0\<lparr>asgi_cleared := True, error_occured := True\<rparr> in
      if startup_failed s \<or> shutdown_failed s then s
      else if lifespan (config s) = ''auto''
      then log_msg INFO ''ASGI 'lifespan' protocol appears unsupported.'' None s
      else log_msg ERROR ''Exception in 'lifespan' protocol\<newline>'' (Some e) s)"

definition main_finally :: "LifespanOn \<Rightarrow> LifespanOn" where
  "main_finally s = s\<lparr>startup_event := True, shutdown_event := True\<rparr>"

text \<open>
  A task that runs \<open>main\<close>: created and not yet run, suspended in \<open>receive\<close>, or
  finished. A finished task holds the exception that left \<open>main\<close>, if any.
\<close>

datatype task = Created | Getting app app | Finished "exc option"

text \<open>
  \<open>main_from a\<close> is \<open>main\<close> from the point where the application has \<open>a\<close> left to
  do, up to the next suspension or to the end of \<open>main\<close>. A cancelled task gets
  \<open>CancelledError\<close> at the \<open>await\<close> it is suspended in, which is \<open>main_from\<close> of
  \<open>Raise CancelledError\<close>.
\<close>

definition main_from :: "app \<Rightarrow> LifespanOn \<Rightarrow> task \<times> LifespanOn" where
  "main_from a s =
     (case run_app a s of
        (Returned, s') \<Rightarrow> (Finished None, main_finally s')
      | (Raised e, s') \<Rightarrow> (Finished None, main_finally (main_except e s'))
      | (Suspended k1 k2, s') \<Rightarrow> (Getting k1 k2, s'))"

definition main :: "LifespanOn \<Rightarrow> task \<times> LifespanOn" where
  "main s = main_from (loaded_app (config s)) (print PrintMainApp s)"

subsection \<open>The event loop\<close>

text \<open>
  The object together with the loop's view of its tasks: the tasks created by
  \<open>startup\<close>, in the order of their creation; the ready queue of the loop (tasks
  to be run, oldest first); and the tasks waiting in \<open>receive_queue.get\<close>.
\<close>

record world =
  self :: LifespanOn
  tasks :: "task list"
  ready :: "nat list"
  getters :: "nat list"

definition new_world :: "Config \<Rightarrow> world" where
  "new_world cfg = \<lparr> self = init cfg, tasks = [], ready = [], getters = [] \<rparr>"

text \<open>\<open>loop.create_task(self.main())\<close>: the task is scheduled, it does not run yet.\<close>

definition create_task :: "world \<Rightarrow> world" where
  "create_task w = w\<lparr>tasks := tasks w @ [Created], ready := ready w @ [length (tasks w)]\<rparr>"

text \<open>
  \<open>receive_queue.put\<close>: the queue is unbounded, so the caller is not suspended; the
  oldest waiting getter is made ready.
\<close>

definition put :: "receive_message \<Rightarrow> world \<Rightarrow> world" where
  "put m w =
     (let w1 = w\<lparr>self := (self w)\<lparr>receive_queue := receive_queue (self w) @ [m]\<rparr>\<rparr> in
      case getters w1 of
        [] \<Rightarrow> w1
      | g # gs \<Rightarrow> w1\<lparr>getters := gs, ready := ready w1 @ [g]\<rparr>)"

text \<open>
  The loop runs task \<open>i\<close>: a created task starts \<open>main\<close>, a task suspended in
  \<open>receive\<close> tries the queue again. A task that ends up suspended joins the getters.
\<close>

definition resume :: "nat \<Rightarrow> world \<Rightarrow> world" where
  "resume i w =
     (if i < length (tasks w) then
        (case (case tasks w ! i of
                 Created \<Rightarrow> Some (main (self w))
               | Getting k1 k2 \<Rightarrow> Some (main_from (Receive k1 k2) (self w))
               | Finished x \<Rightarrow> None) of
           None \<Rightarrow> w
         | Some (t, s) \<Rightarrow>
             w\<lparr>self := s, tasks := (tasks w)[i := t],
               getters := (case t of Getting k1 k2 \<Rightarrow> getters w @ [i] | _ \<Rightarrow> getters w)\<rparr>)
      else w)"

fun run_tasks :: "nat list \<Rightarrow> world \<Rightarrow> world" where
  "run_tasks [] w = w"
| "run_tasks (i # js) w = run_tasks js (resume i w)"

text \<open>
  The caller of \<open>startup\<close> or \<open>shutdown\<close> is the only other task. While it is
  suspended nothing is put on the queue and no task is created, so running a task
  adds nothing to the ready queue but the caller itself, woken by \<open>Event.set\<close>: the
  loop runs the tasks that are ready, in order, and the caller after them.
\<close>

definition run_loop :: "world \<Rightarrow> world" where
  "run_loop w = run_tasks (ready w) (w\<lparr>ready := []\<rparr>)"

text \<open>
  \<open>await event.wait()\<close>. A set event returns at once, without a pass through the
  loop. Otherwise the caller is suspended and the loop runs; when the ready tasks
  are done and the event is still unset, every task is finished or waits for a
  message that only the suspended caller could put: the caller never returns,
  which is the value \<open>None\<close>.
\<close>

definition wait :: "(LifespanOn \<Rightarrow> bool) \<Rightarrow> world \<Rightarrow> world option" where
  "wait ev w =
     (if ev (self w) then Some w
      else let w' = run_loop w in if ev (self w') then Some w' else None)"

subsection \<open>\<open>startup\<close> and \<open>shutdown\<close>\<close>

text \<open>What \<open>startup\<close> and \<open>shutdown\<close> do after their \<open>wait\<close>.\<close>

definition startup_outcome :: "LifespanOn \<Rightarrow> LifespanOn" where
  "startup_outcome s =
     (if startup_failed s \<or> (error_occured s \<and> lifespan (config s) = ''on'')
      then (log_msg ERROR ''Application startup failed. Exiting.'' None s)\<lparr>should_exit := True\<rparr>
      else print PrintStartupDone s)"

definition shutdown_outcome :: "LifespanOn \<Rightarrow> LifespanOn" where
  "shutdown_outcome s =
     (if shutdown_failed s \<or> (error_occured s \<and> lifespan (config s) = ''on'')
      then (log_msg ERROR ''Application shutdown failed. Exiting.'' None s)\<lparr>should_exit := True\<rparr>
      else log_msg INFO ''Application shutdown complete.'' None s)"

definition on_self :: "(LifespanOn \<Rightarrow> LifespanOn) \<Rightarrow> world \<Rightarrow> world" where
  "on_self f w = w\<lparr>self := f (self w)\<rparr>"

definition startup :: "world \<Rightarrow> world option" where
  "startup w =
     (case wait startup_event
             (put LifespanStartup (create_task (on_self (print PrintStartupBegin) w))) of
        None \<Rightarrow> None
      | Some w' \<Rightarrow> Some (on_self startup_outcome w'))"

definition shutdown :: "world \<Rightarrow> world option" where
  "shutdown w =
     (if error_occured (self w) then Some w
      else
        (case wait shutdown_event (put LifespanShutdown (on_self (print PrintShutdown) w)) of
           None \<Rightarrow> None
         | Some w' \<Rightarrow> Some (on_self shutdown_outcome w')))"


subsection \<open>Notions used in the statements\<close>

fun finished :: "task \<Rightarrow> bool" where
  "finished (Finished x) = True"
| "finished t = False"

text \<open>
  An application that, reading the messages \<open>q\<close> from the queue, comes to its end
  without a call of \<open>send\<close> and without being suspended: \<open>returns_unsent\<close> when it
  ends by returning, \<open>raises_unsent e\<close> when it ends by raising \<open>e\<close>.
\<close>

fun returns_unsent :: "app \<Rightarrow> receive_message list \<Rightarrow> bool" where
  "returns_unsent Return q = True"
| "returns_unsent (Receive k1 k2) (m # q) =
     (if m = LifespanStartup then returns_unsent k1 q else returns_unsent k2 q)"
| "returns_unsent a q = False"

fun raises_unsent :: "exc \<Rightarrow> app \<Rightarrow> receive_message list \<Rightarrow> bool" where
  "raises_unsent e (Raise e') q = (e' = e)"
| "raises_unsent e (Receive k1 k2) (m # q) =
     (if m = LifespanStartup then raises_unsent e k1 q else raises_unsent e k2 q)"
| "raises_unsent e a q = False"



section \<open>Properties\<close>

subsection \<open>\<open>send\<close>: the transition table and its frame\<close>

lemmas send_defs = send_def Let_def print_def log_optional_message_def log_msg_def

text \<open>
  Whatever the message and whether or not an assertion fails, \<open>send\<close> leaves these
  five fields as they are.
\<close>

lemma send_frame:
  "error_occured (snd (send m s)) = error_occured s \<and>
   should_exit (snd (send m s)) = should_exit s \<and>
   receive_queue (snd (send m s)) = receive_queue s \<and>
   config (snd (send m s)) = config s \<and>
   asgi_cleared (snd (send m s)) = asgi_cleared s"
  by (simp add: send_defs split: option.split)

text \<open>
  Claim C1. For every message passed to \<open>send\<close>: a type outside the four
  \<open>lifespan.startup.complete\<close>, \<open>lifespan.startup.failed\<close>,
  \<open>lifespan.shutdown.complete\<close>, \<open>lifespan.shutdown.failed\<close> is an assertion failure.
  For the two startup types, \<open>send\<close> succeeds exactly when both events are unset, and
  then sets the startup event (and \<open>startup_failed\<close> on \<open>failed\<close>); for the two
  shutdown types it succeeds exactly when the startup event is set and the shutdown
  event unset, and then sets the shutdown event (and \<open>shutdown_failed\<close> on \<open>failed\<close>).
  Where the precondition fails, \<open>send\<close> raises the assertion failure with
  \<open>STATE_TRANSITION_ERROR\<close> and leaves events and flags as they were.
\<close>

theorem send_transition_table:
  assumes "send m s = (r, s')"
  shows
   "(mtype m \<notin> {''lifespan.startup.complete'', ''lifespan.startup.failed'',
                 ''lifespan.shutdown.complete'', ''lifespan.shutdown.failed''}
       \<longrightarrow> r = Some (AssertionError [])) \<and>
    (mtype m \<in> {''lifespan.startup.complete'', ''lifespan.startup.failed''} \<longrightarrow>
       (if \<not> startup_event s \<and> \<not> shutdown_event s
        then r = None \<and> startup_event s' \<and> \<not> shutdown_event s' \<and>
             startup_failed s' = (mtype m = ''lifespan.startup.failed'' \<or> startup_failed s) \<and>
             shutdown_failed s' = shutdown_failed s
        else r = Some (AssertionError STATE_TRANSITION_ERROR) \<and>
             startup_event s' = startup_event s \<and> shutdown_event s' = shutdown_event s \<and>
             startup_failed s' = startup_failed s \<and> shutdown_failed s' = shutdown_failed s)) \<and>
    (mtype m \<in> {''lifespan.shutdown.complete'', ''lifespan.shutdown.failed''} \<longrightarrow>
       (if startup_event s \<and> \<not> shutdown_event s
        then r = None \<and> startup_event s' \<and> shutdown_event s' \<and>
             shutdown_failed s' = (mtype m = ''lifespan.shutdown.failed'' \<or> shutdown_failed s) \<and>
             startup_failed s' = startup_failed s
        else r = Some (AssertionError STATE_TRANSITION_ERROR) \<and>
             startup_event s' = startup_event s \<and> shutdown_event s' = shutdown_event s \<and>
             startup_failed s' = startup_failed s \<and> shutdown_failed s' = shutdown_failed s))"
  using assms by (auto simp: send_defs split: if_splits option.splits)

text \<open>
  The table at three inputs, on a new object: \<open>lifespan.startup.failed\<close> is accepted,
  \<open>lifespan.shutdown.complete\<close> comes too early, \<open>lifespan.startup\<close> is no type of
  \<open>send\<close>.
\<close>

theorem send_transition_table_witness:
  "fst (send \<lparr>mtype = ''lifespan.startup.failed'', mmessage = Some ''db unreachable''\<rparr>
          (init \<lparr>lifespan = ''on'', loaded_app = Return\<rparr>)) = None \<and>
   startup_failed
     (snd (send \<lparr>mtype = ''lifespan.startup.failed'', mmessage = Some ''db unreachable''\<rparr>
          (init \<lparr>lifespan = ''on'', loaded_app = Return\<rparr>))) \<and>
   startup_event
     (snd (send \<lparr>mtype = ''lifespan.startup.failed'', mmessage = Some ''db unreachable''\<rparr>
          (init \<lparr>lifespan = ''on'', loaded_app = Return\<rparr>))) \<and>
   fst (send \<lparr>mtype = ''lifespan.shutdown.complete'', mmessage = None\<rparr>
          (init \<lparr>lifespan = ''on'', loaded_app = Return\<rparr>))
     = Some (AssertionError STATE_TRANSITION_ERROR) \<and>
   fst (send \<lparr>mtype = ''lifespan.startup'', mmessage = None\<rparr>
          (init \<lparr>lifespan = ''on'', loaded_app = Return\<rparr>))
     = Some (AssertionError [])"
  using
    send_transition_table
      [of "\<lparr>mtype = ''lifespan.startup.failed'', mmessage = Some ''db unreachable''\<rparr>"
          "init \<lparr>lifespan = ''on'', loaded_app = Return\<rparr>"
          "fst (send \<lparr>mtype = ''lifespan.startup.failed'', mmessage = Some ''db unreachable''\<rparr>
                  (init \<lparr>lifespan = ''on'', loaded_app = Return\<rparr>))"
          "snd (send \<lparr>mtype = ''lifespan.startup.failed'', mmessage = Some ''db unreachable''\<rparr>
                  (init \<lparr>lifespan = ''on'', loaded_app = Return\<rparr>))"]
    send_transition_table
      [of "\<lparr>mtype = ''lifespan.shutdown.complete'', mmessage = None\<rparr>"
          "init \<lparr>lifespan = ''on'', loaded_app = Return\<rparr>"
          "fst (send \<lparr>mtype = ''lifespan.shutdown.complete'', mmessage = None\<rparr>
                  (init \<lparr>lifespan = ''on'', loaded_app = Return\<rparr>))"
          "snd (send \<lparr>mtype = ''lifespan.shutdown.complete'', mmessage = None\<rparr>
                  (init \<lparr>lifespan = ''on'', loaded_app = Return\<rparr>))"]
    send_transition_table
      [of "\<lparr>mtype = ''lifespan.startup'', mmessage = None\<rparr>"
          "init \<lparr>lifespan = ''on'', loaded_app = Return\<rparr>"
          "fst (send \<lparr>mtype = ''lifespan.startup'', mmessage = None\<rparr>
                  (init \<lparr>lifespan = ''on'', loaded_app = Return\<rparr>))"
          "snd (send \<lparr>mtype = ''lifespan.startup'', mmessage = None\<rparr>
                  (init \<lparr>lifespan = ''on'', loaded_app = Return\<rparr>))"]
  by (simp add: init_def)

text \<open>
  Claim C10. For every message that \<open>send\<close> accepts (it returns without an
  assertion failure), \<open>error_occured\<close>, \<open>should_exit\<close> and the contents of
  \<open>receive_queue\<close> are what they were before the call; so are the configuration
  and \<open>asgi_cleared\<close>, the object's two remaining fields that are neither a
  signal nor a failed flag nor output.
\<close>

theorem send_accepted_frame:
  assumes "send m s = (None, s')"
  shows "error_occured s' = error_occured s \<and> should_exit s' = should_exit s \<and>
         receive_queue s' = receive_queue s \<and> config s' = config s \<and>
         asgi_cleared s' = asgi_cleared s"
  using send_frame [of m s] assms by simp

theorem send_accepted_frame_witness:
  "send \<lparr>mtype = ''lifespan.startup.complete'', mmessage = None\<rparr>
        ((init \<lparr>lifespan = ''auto'', loaded_app = Return\<rparr>)\<lparr>receive_queue := [LifespanStartup]\<rparr>)
     = (None, (init \<lparr>lifespan = ''auto'', loaded_app = Return\<rparr>)
                \<lparr>receive_queue := [LifespanStartup],
                  stdout := [PrintSendType ''lifespan.startup.complete''],
                  startup_event := True\<rparr>) \<and>
   receive_queue ((init \<lparr>lifespan = ''auto'', loaded_app = Return\<rparr>)
                \<lparr>receive_queue := [LifespanStartup],
                  stdout := [PrintSendType ''lifespan.startup.complete''],
                  startup_event := True\<rparr>) = [LifespanStartup]"
  using send_accepted_frame
      [of "\<lparr>mtype = ''lifespan.startup.complete'', mmessage = None\<rparr>"
          "(init \<lparr>lifespan = ''auto'', loaded_app = Return\<rparr>)\<lparr>receive_queue := [LifespanStartup]\<rparr>"
          "(init \<lparr>lifespan = ''auto'', loaded_app = Return\<rparr>)
                \<lparr>receive_queue := [LifespanStartup],
                  stdout := [PrintSendType ''lifespan.startup.complete''],
                  startup_event := True\<rparr>"]
  by (simp add: send_defs init_def)

subsection \<open>What the task code leaves alone, and what it never undoes\<close>

lemma send_events_mono:
  "(startup_event s \<longrightarrow> startup_event (snd (send m s))) \<and>
   (shutdown_event s \<longrightarrow> shutdown_event (snd (send m s)))"
  by (simp add: send_defs split: option.split)

lemma receive_frame:
  assumes "receive s = Some (m, s')"
  shows "error_occured s' = error_occured s \<and> should_exit s' = should_exit s \<and>
         config s' = config s \<and> asgi_cleared s' = asgi_cleared s \<and>
         startup_event s' = startup_event s \<and> shutdown_event s' = shutdown_event s \<and>
         startup_failed s' = startup_failed s \<and> shutdown_failed s' = shutdown_failed s \<and>
         logger s' = logger s \<and> stdout s' = stdout s"
  using assms by (auto simp: receive_def split: list.splits)

lemma run_app_frame:
  "run_app a s = (out, s') \<Longrightarrow>
     error_occured s' = error_occured s \<and> should_exit s' = should_exit s \<and>
     config s' = config s \<and> asgi_cleared s' = asgi_cleared s"
proof (induction a arbitrary: s)
  case (Send m k)
  then show ?case
    using send_frame [of m s]
    by (cases "send m s") (auto split: option.splits)
next
  case (TrySend m k h)
  then show ?case
    using send_frame [of m s]
    by (cases "send m s") (auto split: option.splits)
next
  case (Receive k1 k2)
  show ?case
  proof (cases "receive s")
    case None
    with Receive.prems show ?thesis by simp
  next
    case (Some p)
    obtain m s1 where p: "p = (m, s1)" by (cases p)
    from Some p have r: "receive s = Some (m, s1)" by simp
    from Receive.prems r have "run_app (if m = LifespanStartup then k1 else k2) s1 = (out, s')"
      by (simp split: if_splits)
    then have "error_occured s' = error_occured s1 \<and> should_exit s' = should_exit s1 \<and>
               config s' = config s1 \<and> asgi_cleared s' = asgi_cleared s1"
      using Receive.IH by (cases "m = LifespanStartup") simp_all
    with receive_frame [OF r] show ?thesis by simp
  qed
qed simp_all

lemma run_app_events_mono:
  "run_app a s = (out, s') \<Longrightarrow>
     (startup_event s \<longrightarrow> startup_event s') \<and> (shutdown_event s \<longrightarrow> shutdown_event s')"
proof (induction a arbitrary: s)
  case (Send m k)
  then show ?case
    using send_events_mono [of s m]
    by (cases "send m s") (auto split: option.splits)
next
  case (TrySend m k h)
  then show ?case
    using send_events_mono [of s m]
    by (cases "send m s") (auto split: option.splits)
next
  case (Receive k1 k2)
  show ?case
  proof (cases "receive s")
    case None
    with Receive.prems show ?thesis by simp
  next
    case (Some p)
    obtain m s1 where p: "p = (m, s1)" by (cases p)
    from Some p have r: "receive s = Some (m, s1)" by simp
    from Receive.prems r have "run_app (if m = LifespanStartup then k1 else k2) s1 = (out, s')"
      by (simp split: if_splits)
    then have "(startup_event s1 \<longrightarrow> startup_event s') \<and> (shutdown_event s1 \<longrightarrow> shutdown_event s')"
      using Receive.IH by (cases "m = LifespanStartup") simp_all
    with receive_frame [OF r] show ?thesis by simp
  qed
qed simp_all

lemma main_except_frame:
  "should_exit (main_except e s) = should_exit s \<and> config (main_except e s) = config s \<and>
   startup_event (main_except e s) = startup_event s \<and>
   shutdown_event (main_except e s) = shutdown_event s \<and>
   startup_failed (main_except e s) = startup_failed s \<and>
   shutdown_failed (main_except e s) = shutdown_failed s \<and>
   receive_queue (main_except e s) = receive_queue s \<and>
   error_occured (main_except e s)"
  by (simp add: main_except_def Let_def log_msg_def)

lemma main_from_frame:
  assumes "main_from a s = (t, s')"
  shows "should_exit s' = should_exit s \<and> config s' = config s"
proof -
  obtain out s1 where r: "run_app a s = (out, s1)" by (cases "run_app a s")
  from run_app_frame [OF r] assms r main_except_frame show ?thesis
    by (cases out) (auto simp: main_from_def main_finally_def)
qed

lemma main_from_events_mono:
  assumes "main_from a s = (t, s')"
  shows "(startup_event s \<longrightarrow> startup_event s') \<and> (shutdown_event s \<longrightarrow> shutdown_event s')"
proof -
  obtain out s1 where r: "run_app a s = (out, s1)" by (cases "run_app a s")
  from run_app_events_mono [OF r] assms r show ?thesis
    by (cases out) (auto simp: main_from_def main_finally_def)
qed

lemma main_from_finished:
  assumes "main_from a s = (Finished x, s')"
  shows "x = None \<and> startup_event s' \<and> shutdown_event s'"
proof -
  obtain out s1 where r: "run_app a s = (out, s1)" by (cases "run_app a s")
  from assms r show ?thesis
    by (cases out) (auto simp: main_from_def main_finally_def)
qed

subsection \<open>The same for the loop\<close>

lemma resume_frame:
  "should_exit (self (resume i w)) = should_exit (self w) \<and>
   config (self (resume i w)) = config (self w) \<and>
   length (tasks (resume i w)) = length (tasks w) \<and>
   ready (resume i w) = ready w"
proof (cases "i < length (tasks w)")
  case False
  then show ?thesis by (simp add: resume_def)
next
  case True
  show ?thesis
  proof (cases "tasks w ! i")
    case Created
    obtain t s where m: "main (self w) = (t, s)" by (cases "main (self w)")
    then have "main_from (loaded_app (config (self w))) (print PrintMainApp (self w)) = (t, s)"
      by (simp add: main_def)
    from main_from_frame [OF this] True Created m show ?thesis
      by (simp add: resume_def print_def)
  next
    case (Getting k1 k2)
    obtain t s where m: "main_from (Receive k1 k2) (self w) = (t, s)"
      by (cases "main_from (Receive k1 k2) (self w)")
    from main_from_frame [OF m] True Getting m show ?thesis
      by (simp add: resume_def)
  next
    case (Finished x)
    with True show ?thesis by (simp add: resume_def)
  qed
qed

lemma run_tasks_frame:
  "should_exit (self (run_tasks js w)) = should_exit (self w) \<and>
   config (self (run_tasks js w)) = config (self w) \<and>
   length (tasks (run_tasks js w)) = length (tasks w) \<and>
   ready (run_tasks js w) = ready w"
  by (induction js arbitrary: w) (simp_all add: resume_frame)

lemma wait_frame:
  assumes "wait ev w = Some w'"
  shows "should_exit (self w') = should_exit (self w) \<and> config (self w') = config (self w) \<and>
         length (tasks w') = length (tasks w) \<and> ev (self w')"
  using assms run_tasks_frame [of "ready w" "w\<lparr>ready := []\<rparr>"]
  by (auto simp: wait_def run_loop_def Let_def split: if_splits)

lemma resume_events_mono:
  "(startup_event (self w) \<longrightarrow> startup_event (self (resume i w))) \<and>
   (shutdown_event (self w) \<longrightarrow> shutdown_event (self (resume i w)))"
proof (cases "i < length (tasks w)")
  case False
  then show ?thesis by (simp add: resume_def)
next
  case True
  show ?thesis
  proof (cases "tasks w ! i")
    case Created
    obtain t s where m: "main (self w) = (t, s)" by (cases "main (self w)")
    then have "main_from (loaded_app (config (self w))) (print PrintMainApp (self w)) = (t, s)"
      by (simp add: main_def)
    from main_from_events_mono [OF this] True Created m show ?thesis
      by (simp add: resume_def print_def)
  next
    case (Getting k1 k2)
    obtain t s where m: "main_from (Receive k1 k2) (self w) = (t, s)"
      by (cases "main_from (Receive k1 k2) (self w)")
    from main_from_events_mono [OF m] True Getting m show ?thesis
      by (simp add: resume_def)
  next
    case (Finished x)
    with True show ?thesis by (simp add: resume_def)
  qed
qed

lemma run_tasks_events_mono:
  "(startup_event (self w) \<longrightarrow> startup_event (self (run_tasks js w))) \<and>
   (shutdown_event (self w) \<longrightarrow> shutdown_event (self (run_tasks js w)))"
proof (induction js arbitrary: w)
  case Nil
  show ?case by simp
next
  case (Cons j js)
  from resume_events_mono [of w j] Cons.IH [of "resume j w"] show ?case by simp
qed

lemma resume_other_task:
  "i \<noteq> j \<Longrightarrow> tasks (resume j w) ! i = tasks w ! i"
  by (auto simp: resume_def split: task.splits prod.splits)

lemma resume_finishes:
  assumes i: "i < length (tasks w)" and b: "\<not> finished (tasks w ! i)"
    and f: "finished (tasks (resume i w) ! i)"
  shows "startup_event (self (resume i w)) \<and> shutdown_event (self (resume i w))"
proof (cases "tasks w ! i")
  case Created
  obtain t s1 where m: "main (self w) = (t, s1)" by (cases "main (self w)")
  from i Created m have r: "resume i w = w\<lparr>self := s1, tasks := (tasks w)[i := t],
      getters := (case t of Getting k1 k2 \<Rightarrow> getters w @ [i] | _ \<Rightarrow> getters w)\<rparr>"
    by (simp add: resume_def)
  with f i obtain y where "t = Finished y" by (cases t) simp_all
  with m have "main_from (loaded_app (config (self w))) (print PrintMainApp (self w)) = (Finished y, s1)"
    by (simp add: main_def)
  from main_from_finished [OF this] r show ?thesis by simp
next
  case (Getting k1 k2)
  obtain t s1 where m: "main_from (Receive k1 k2) (self w) = (t, s1)"
    by (cases "main_from (Receive k1 k2) (self w)")
  from i Getting m have r: "resume i w = w\<lparr>self := s1, tasks := (tasks w)[i := t],
      getters := (case t of Getting k1 k2 \<Rightarrow> getters w @ [i] | _ \<Rightarrow> getters w)\<rparr>"
    by (simp add: resume_def)
  with f i obtain y where "t = Finished y" by (cases t) simp_all
  with m have "main_from (Receive k1 k2) (self w) = (Finished y, s1)" by simp
  from main_from_finished [OF this] r show ?thesis by simp
next
  case (Finished z)
  with b show ?thesis by simp
qed

lemma run_tasks_finishes:
  assumes "i < length (tasks w)" and "\<not> finished (tasks w ! i)"
    and "finished (tasks (run_tasks js w) ! i)"
  shows "startup_event (self (run_tasks js w)) \<and> shutdown_event (self (run_tasks js w))"
  using assms
proof (induction js arbitrary: w)
  case Nil
  then show ?case by simp
next
  case (Cons j js)
  have len: "i < length (tasks (resume j w))" using Cons.prems(1) by (simp add: resume_frame)
  show ?case
  proof (cases "finished (tasks (resume j w) ! i)")
    case False
    from Cons.IH [OF len False] Cons.prems(3) show ?thesis by simp
  next
    case True
    have "i = j"
    proof (rule ccontr)
      assume "i \<noteq> j"
      from resume_other_task [OF this, of w] True Cons.prems(2) show False by simp
    qed
    with resume_finishes [OF Cons.prems(1) Cons.prems(2)] True
    have "startup_event (self (resume j w)) \<and> shutdown_event (self (resume j w))" by simp
    with run_tasks_events_mono [of "resume j w" js] show ?thesis by simp
  qed
qed

lemma run_loop_finishes:
  assumes "i < length (tasks w)" and "\<not> finished (tasks w ! i)"
    and "finished (tasks (run_loop w) ! i)"
  shows "startup_event (self (run_loop w)) \<and> shutdown_event (self (run_loop w)) \<and>
         wait startup_event w \<noteq> None \<and> wait shutdown_event w \<noteq> None"
proof -
  from assms run_tasks_finishes [of i "w\<lparr>ready := []\<rparr>" "ready w"]
  have "startup_event (self (run_loop w)) \<and> shutdown_event (self (run_loop w))"
    by (simp add: run_loop_def)
  then show ?thesis by (simp add: wait_def Let_def)
qed

lemmas world_defs = startup_def shutdown_def wait_def run_loop_def resume_def put_def
  create_task_def on_self_def new_world_def init_def main_def main_from_def main_finally_def
  main_except_def startup_outcome_def shutdown_outcome_def print_def log_msg_def Let_def
  receive_def

subsection \<open>The end of \<open>main\<close>\<close>

text \<open>
  Claim C2. However \<open>main\<close> comes to its end (the application returned, it raised
  and the failure was caught, or the task was cancelled, which raises
  \<open>CancelledError\<close> in the application), both \<open>startup_event\<close> and
  \<open>shutdown_event\<close> are set when it has ended. Hence a pass of the loop in which
  some task comes to its end leaves both events set, and a caller waiting for
  either of them returns.
\<close>

theorem main_sets_both_signals:
  "(main_from a s = (Finished x, s') \<longrightarrow> startup_event s' \<and> shutdown_event s') \<and>
   (i < length (tasks w) \<and> \<not> finished (tasks w ! i) \<and> finished (tasks (run_loop w) ! i)
      \<longrightarrow> startup_event (self (run_loop w)) \<and> shutdown_event (self (run_loop w)) \<and>
          wait startup_event w \<noteq> None \<and> wait shutdown_event w \<noteq> None)"
  using main_from_finished [of a s x s'] run_loop_finishes [of i w] by blast

text \<open>
  A cancelled \<open>main\<close> on a new object, and a loop with one new task whose
  application returns at once.
\<close>

theorem main_sets_both_signals_witness:
  "main_from (Raise CancelledError) (init \<lparr>lifespan = ''auto'', loaded_app = Return\<rparr>) =
     (Finished None,
      (init \<lparr>lifespan = ''auto'', loaded_app = Return\<rparr>)
        \<lparr>logger := [(INFO, ''ASGI 'lifespan' protocol appears unsupported.'', None)],
          startup_event := True, shutdown_event := True, error_occured := True,
          asgi_cleared := True\<rparr>) \<and>
   startup_event ((init \<lparr>lifespan = ''auto'', loaded_app = Return\<rparr>)
        \<lparr>logger := [(INFO, ''ASGI 'lifespan' protocol appears unsupported.'', None)],
          startup_event := True, shutdown_event := True, error_occured := True,
          asgi_cleared := True\<rparr>) \<and>
   \<not> finished (tasks (create_task (new_world \<lparr>lifespan = ''on'', loaded_app = Return\<rparr>)) ! 0) \<and>
   finished (tasks (run_loop (create_task (new_world \<lparr>lifespan = ''on'', loaded_app = Return\<rparr>))) ! 0) \<and>
   wait startup_event (create_task (new_world \<lparr>lifespan = ''on'', loaded_app = Return\<rparr>)) \<noteq> None \<and>
   wait shutdown_event (create_task (new_world \<lparr>lifespan = ''on'', loaded_app = Return\<rparr>)) \<noteq> None"
  using
    main_sets_both_signals
      [of "Raise CancelledError" "init \<lparr>lifespan = ''auto'', loaded_app = Return\<rparr>" None
          "(init \<lparr>lifespan = ''auto'', loaded_app = Return\<rparr>)
             \<lparr>logger := [(INFO, ''ASGI 'lifespan' protocol appears unsupported.'', None)],
               startup_event := True, shutdown_event := True, error_occured := True,
               asgi_cleared := True\<rparr>"
          0 "create_task (new_world \<lparr>lifespan = ''on'', loaded_app = Return\<rparr>)"]
  by (simp add: world_defs)

text \<open>
  Claim C3. When a failure leaves the application inside \<open>main\<close>, with the object
  then in state \<open>s1\<close>: the task ends without an exception of its own, and
  \<open>error_occured\<close> is true. If \<open>startup_failed\<close> or \<open>shutdown_failed\<close> is true in
  \<open>s1\<close>, nothing is logged; otherwise one record is logged: under mode \<open>auto\<close> at
  level \<open>INFO\<close>, under any other mode at level \<open>ERROR\<close> together with the failure.
\<close>

theorem main_catches_failure:
  assumes "run_app a s = (Raised e, s1)"
  shows "fst (main_from a s) = Finished None \<and>
         error_occured (snd (main_from a s)) \<and>
         logger (snd (main_from a s)) =
           (if startup_failed s1 \<or> shutdown_failed s1 then logger s1
            else if lifespan (config s1) = ''auto''
            then logger s1 @ [(INFO, ''ASGI 'lifespan' protocol appears unsupported.'', None)]
            else logger s1 @ [(ERROR, ''Exception in 'lifespan' protocol\<newline>'', Some e)])"
  using assms by (simp add: main_from_def main_finally_def main_except_def Let_def log_msg_def)

text \<open>
  Under mode \<open>on\<close>, an application that raises at once, and one that raises after
  a \<open>lifespan.startup.failed\<close> without text: the second failure is not logged.
\<close>

theorem main_catches_failure_witness:
  "run_app (Raise (OtherError ''boom'')) (init \<lparr>lifespan = ''on'', loaded_app = Return\<rparr>) =
     (Raised (OtherError ''boom''), init \<lparr>lifespan = ''on'', loaded_app = Return\<rparr>) \<and>
   fst (main_from (Raise (OtherError ''boom'')) (init \<lparr>lifespan = ''on'', loaded_app = Return\<rparr>))
     = Finished None \<and>
   error_occured
     (snd (main_from (Raise (OtherError ''boom'')) (init \<lparr>lifespan = ''on'', loaded_app = Return\<rparr>))) \<and>
   logger
     (snd (main_from (Raise (OtherError ''boom'')) (init \<lparr>lifespan = ''on'', loaded_app = Return\<rparr>)))
     = [(ERROR, ''Exception in 'lifespan' protocol\<newline>'', Some (OtherError ''boom''))] \<and>
   run_app (Send \<lparr>mtype = ''lifespan.startup.failed'', mmessage = None\<rparr> (Raise (OtherError ''boom'')))
      (init \<lparr>lifespan = ''on'', loaded_app = Return\<rparr>) =
     (Raised (OtherError ''boom''),
      (init \<lparr>lifespan = ''on'', loaded_app = Return\<rparr>)
        \<lparr>stdout := [PrintSendType ''lifespan.startup.failed''],
          startup_event := True, startup_failed := True\<rparr>) \<and>
   logger
     (snd (main_from
        (Send \<lparr>mtype = ''lifespan.startup.failed'', mmessage = None\<rparr> (Raise (OtherError ''boom'')))
        (init \<lparr>lifespan = ''on'', loaded_app = Return\<rparr>)))
     = []"
  using
    main_catches_failure
      [of "Raise (OtherError ''boom'')" "init \<lparr>lifespan = ''on'', loaded_app = Return\<rparr>"
          "OtherError ''boom''" "init \<lparr>lifespan = ''on'', loaded_app = Return\<rparr>"]
    main_catches_failure
      [of "Send \<lparr>mtype = ''lifespan.startup.failed'', mmessage = None\<rparr> (Raise (OtherError ''boom''))"
          "init \<lparr>lifespan = ''on'', loaded_app = Return\<rparr>"
          "OtherError ''boom''"
          "(init \<lparr>lifespan = ''on'', loaded_app = Return\<rparr>)
             \<lparr>stdout := [PrintSendType ''lifespan.startup.failed''],
               startup_event := True, startup_failed := True\<rparr>"]
  by (simp add: init_def send_defs)

subsection \<open>\<open>startup\<close> and \<open>shutdown\<close>\<close>

text \<open>
  Claim C4. When \<open>startup\<close> returns, let \<open>w1\<close> be the state in which its wait
  for \<open>startup_event\<close> ended. \<open>should_exit\<close> is then still what it was when
  \<open>startup\<close> was called. If \<open>startup_failed\<close> is true in \<open>w1\<close>, or \<open>error_occured\<close>
  is true and the mode is \<open>on\<close>, \<open>startup\<close> sets \<open>should_exit\<close> and logs the
  failure at level \<open>ERROR\<close>; in every other case it leaves \<open>should_exit\<close> as it
  was, logs nothing and prints its line of success. \<open>startup\<close> has no exceptional
  result: no statement of it raises, and a failure inside the task ends in the
  task.
\<close>

theorem startup_outcome_should_exit:
  assumes "startup w = Some w'"
  shows "\<exists>w1. wait startup_event
                (put LifespanStartup (create_task (on_self (print PrintStartupBegin) w))) = Some w1 \<and>
           should_exit (self w1) = should_exit (self w) \<and>
           startup_failed (self w') = startup_failed (self w1) \<and>
           error_occured (self w') = error_occured (self w1) \<and>
           config (self w') = config (self w1) \<and>
           (if startup_failed (self w1) \<or>
               (error_occured (self w1) \<and> lifespan (config (self w1)) = ''on'')
            then should_exit (self w') \<and>
                 logger (self w') =
                   logger (self w1) @ [(ERROR, ''Application startup failed. Exiting.'', None)] \<and>
                 stdout (self w') = stdout (self w1)
            else should_exit (self w') = should_exit (self w) \<and>
                 logger (self w') = logger (self w1) \<and>
                 stdout (self w') = stdout (self w1) @ [PrintStartupDone])"
proof -
  let ?w0 = "put LifespanStartup (create_task (on_self (print PrintStartupBegin) w))"
  from assms obtain w1 where w1: "wait startup_event ?w0 = Some w1"
    and w': "w' = on_self startup_outcome w1"
    by (auto simp: startup_def split: option.splits)
  have "should_exit (self ?w0) = should_exit (self w)"
    by (simp add: put_def create_task_def on_self_def print_def Let_def split: list.split)
  with wait_frame [OF w1] have "should_exit (self w1) = should_exit (self w)" by simp
  with w1 w' show ?thesis
    by (simp add: on_self_def startup_outcome_def log_msg_def print_def)
qed

text \<open>A new object under mode \<open>on\<close> whose application raises at once.\<close>

theorem startup_outcome_should_exit_witness:
  "startup (new_world \<lparr>lifespan = ''on'', loaded_app = Raise (OtherError ''boom'')\<rparr>) =
     Some \<lparr> self = \<lparr> config = \<lparr>lifespan = ''on'', loaded_app = Raise (OtherError ''boom'')\<rparr>,
                    logger = [(ERROR, ''Exception in 'lifespan' protocol\<newline>'', Some (OtherError ''boom'')),
                              (ERROR, ''Application startup failed. Exiting.'', None)],
                    stdout = [PrintStartupBegin, PrintMainApp],
                    startup_event = True, shutdown_event = True,
                    receive_queue = [LifespanStartup],
                    error_occured = True, startup_failed = False, shutdown_failed = False,
                    should_exit = True, asgi_cleared = True \<rparr>,
            tasks = [Finished None], ready = [], getters = [] \<rparr> \<and>
   (\<exists>w1. wait startup_event
           (put LifespanStartup (create_task (on_self (print PrintStartupBegin)
              (new_world \<lparr>lifespan = ''on'', loaded_app = Raise (OtherError ''boom'')\<rparr>)))) = Some w1 \<and>
         error_occured (self w1) \<and> \<not> should_exit (self w1))"
  using
    startup_outcome_should_exit
      [of "new_world \<lparr>lifespan = ''on'', loaded_app = Raise (OtherError ''boom'')\<rparr>"
          "\<lparr> self = \<lparr> config = \<lparr>lifespan = ''on'', loaded_app = Raise (OtherError ''boom'')\<rparr>,
                    logger = [(ERROR, ''Exception in 'lifespan' protocol\<newline>'', Some (OtherError ''boom'')),
                              (ERROR, ''Application startup failed. Exiting.'', None)],
                    stdout = [PrintStartupBegin, PrintMainApp],
                    startup_event = True, shutdown_event = True,
                    receive_queue = [LifespanStartup],
                    error_occured = True, startup_failed = False, shutdown_failed = False,
                    should_exit = True, asgi_cleared = True \<rparr>,
            tasks = [Finished None], ready = [], getters = [] \<rparr>"]
  by (simp add: world_defs)

text \<open>
  Claim C5. If \<open>error_occured\<close> is true when \<open>shutdown\<close> is called, \<open>shutdown\<close>
  returns at once and everything is as before: nothing was put on
  \<open>receive_queue\<close>, no event was waited for (no task ran), and no field of the
  object has changed.
\<close>

theorem shutdown_after_error_returns_at_once:
  assumes "error_occured (self w)"
  shows "shutdown w = Some w"
  using assms by (simp add: shutdown_def)

theorem shutdown_after_error_returns_at_once_witness:
  "error_occured (self ((new_world \<lparr>lifespan = ''on'', loaded_app = Return\<rparr>)
      \<lparr>self := (init \<lparr>lifespan = ''on'', loaded_app = Return\<rparr>)\<lparr>error_occured := True\<rparr>\<rparr>)) \<and>
   shutdown ((new_world \<lparr>lifespan = ''on'', loaded_app = Return\<rparr>)
      \<lparr>self := (init \<lparr>lifespan = ''on'', loaded_app = Return\<rparr>)\<lparr>error_occured := True\<rparr>\<rparr>) =
     Some ((new_world \<lparr>lifespan = ''on'', loaded_app = Return\<rparr>)
      \<lparr>self := (init \<lparr>lifespan = ''on'', loaded_app = Return\<rparr>)\<lparr>error_occured := True\<rparr>\<rparr>)"
  using
    shutdown_after_error_returns_at_once
      [of "(new_world \<lparr>lifespan = ''on'', loaded_app = Return\<rparr>)
             \<lparr>self := (init \<lparr>lifespan = ''on'', loaded_app = Return\<rparr>)\<lparr>error_occured := True\<rparr>\<rparr>"]
  by simp

text \<open>
  \<open>startup\<close> has no guard around \<open>create_task\<close>. Two calls in a row, with an
  application that returns at once: the first call's task has run and ended, and
  the second call has created a second one, which is ready and has not run.
\<close>

theorem second_startup_counterexample:
  "Option.bind (startup (new_world \<lparr>lifespan = ''on'', loaded_app = Return\<rparr>)) startup =
     Some \<lparr> self = \<lparr> config = \<lparr>lifespan = ''on'', loaded_app = Return\<rparr>,
                    logger = [],
                    stdout = [PrintStartupBegin, PrintMainApp, PrintStartupDone,
                              PrintStartupBegin, PrintStartupDone],
                    startup_event = True, shutdown_event = True,
                    receive_queue = [LifespanStartup, LifespanStartup],
                    error_occured = False, startup_failed = False, shutdown_failed = False,
                    should_exit = False, asgi_cleared = False \<rparr>,
            tasks = [Finished None, Created], ready = [1], getters = [] \<rparr>"
  by (simp add: world_defs)

lemma startup_begin_task:
  "tasks (put LifespanStartup (create_task (on_self (print PrintStartupBegin) w))) =
     tasks w @ [Created] \<and>
   length (tasks w) \<in> set (ready (put LifespanStartup (create_task (on_self (print PrintStartupBegin) w)))) \<and>
   startup_event (self (put LifespanStartup (create_task (on_self (print PrintStartupBegin) w)))) =
     startup_event (self w)"
  by (simp add: put_def create_task_def on_self_def print_def Let_def split: list.split)

text \<open>
  Claim C6, amended. Every call of \<open>startup\<close> creates a new task running \<open>main\<close>,
  with no condition. Let \<open>w0\<close> be the state in which the call comes to its wait:
  the tasks of \<open>w0\<close> are the tasks the call found and one more, newly created and
  in the ready queue. The pass through the loop that the wait may make removes no
  task, so the new task is there whether the wait ends or not; a call that
  returns leaves one task more than it found. A call that finds \<open>startup_event\<close>
  set returns without a pass through the loop: its new task is in the ready queue
  and has not run.
\<close>

theorem startup_always_creates_task:
  "(let w0 = put LifespanStartup (create_task (on_self (print PrintStartupBegin) w)) in
      tasks w0 = tasks w @ [Created] \<and>
      length (tasks w) \<in> set (ready w0) \<and>
      startup w = (case wait startup_event w0 of
                     None \<Rightarrow> None
                   | Some w1 \<Rightarrow> Some (on_self startup_outcome w1)) \<and>
      length (tasks (run_loop w0)) = Suc (length (tasks w)) \<and>
      (startup w = Some w' \<longrightarrow> length (tasks w') = Suc (length (tasks w))) \<and>
      (startup_event (self w) \<longrightarrow>
         startup w = Some (on_self startup_outcome w0) \<and>
         tasks (on_self startup_outcome w0) = tasks w @ [Created] \<and>
         length (tasks w) \<in> set (ready (on_self startup_outcome w0))))"
proof -
  let ?w0 = "put LifespanStartup (create_task (on_self (print PrintStartupBegin) w))"
  note b = startup_begin_task [of w]
  have 1: "startup w = (case wait startup_event ?w0 of
                     None \<Rightarrow> None
                   | Some w1 \<Rightarrow> Some (on_self startup_outcome w1))"
    by (simp add: startup_def)
  have 2: "length (tasks (run_loop ?w0)) = Suc (length (tasks w))"
    using run_tasks_frame [of "ready ?w0" "?w0\<lparr>ready := []\<rparr>"] b
    by (simp add: run_loop_def)
  have 3: "startup w = Some w' \<longrightarrow> length (tasks w') = Suc (length (tasks w))"
  proof
    assume "startup w = Some w'"
    with 1 obtain w1 where w1: "wait startup_event ?w0 = Some w1"
      and w': "w' = on_self startup_outcome w1"
      by (auto split: option.splits)
    from wait_frame [OF w1] w' b show "length (tasks w') = Suc (length (tasks w))"
      by (simp add: on_self_def)
  qed
  have 4: "startup_event (self w) \<longrightarrow>
         startup w = Some (on_self startup_outcome ?w0) \<and>
         tasks (on_self startup_outcome ?w0) = tasks w @ [Created] \<and>
         length (tasks w) \<in> set (ready (on_self startup_outcome ?w0))"
  proof
    assume "startup_event (self w)"
    with b have "wait startup_event ?w0 = Some ?w0" by (simp add: wait_def)
    with 1 b show "startup w = Some (on_self startup_outcome ?w0) \<and>
         tasks (on_self startup_outcome ?w0) = tasks w @ [Created] \<and>
         length (tasks w) \<in> set (ready (on_self startup_outcome ?w0))"
      by (simp add: on_self_def)
  qed
  from b 1 2 3 4 show ?thesis unfolding Let_def by blast
qed

text \<open>
  A first call on a new object, whose application takes the startup message and
  returns, and a second call on the state the first one left.
\<close>

theorem startup_always_creates_task_witness:
  "startup (new_world \<lparr>lifespan = ''auto'', loaded_app = Receive Return Return\<rparr>) =
     Some \<lparr> self = \<lparr> config = \<lparr>lifespan = ''auto'', loaded_app = Receive Return Return\<rparr>,
                    logger = [],
                    stdout = [PrintStartupBegin, PrintMainApp, PrintStartupDone],
                    startup_event = True, shutdown_event = True,
                    receive_queue = [],
                    error_occured = False, startup_failed = False, shutdown_failed = False,
                    should_exit = False, asgi_cleared = False \<rparr>,
            tasks = [Finished None], ready = [], getters = [] \<rparr> \<and>
   length (tasks \<lparr> self = \<lparr> config = \<lparr>lifespan = ''auto'', loaded_app = Receive Return Return\<rparr>,
                    logger = [],
                    stdout = [PrintStartupBegin, PrintMainApp, PrintStartupDone],
                    startup_event = True, shutdown_event = True,
                    receive_queue = [],
                    error_occured = False, startup_failed = False, shutdown_failed = False,
                    should_exit = False, asgi_cleared = False \<rparr>,
            tasks = [Finished None], ready = [], getters = [] \<rparr>) = Suc (length (tasks (new_world \<lparr>lifespan = ''auto'', loaded_app = Receive Return Return\<rparr>))) \<and>
   startup_event (self \<lparr> self = \<lparr> config = \<lparr>lifespan = ''auto'', loaded_app = Receive Return Return\<rparr>,
                    logger = [],
                    stdout = [PrintStartupBegin, PrintMainApp, PrintStartupDone],
                    startup_event = True, shutdown_event = True,
                    receive_queue = [],
                    error_occured = False, startup_failed = False, shutdown_failed = False,
                    should_exit = False, asgi_cleared = False \<rparr>,
            tasks = [Finished None], ready = [], getters = [] \<rparr>) \<and>
   startup \<lparr> self = \<lparr> config = \<lparr>lifespan = ''auto'', loaded_app = Receive Return Return\<rparr>,
                    logger = [],
                    stdout = [PrintStartupBegin, PrintMainApp, PrintStartupDone],
                    startup_event = True, shutdown_event = True,
                    receive_queue = [],
                    error_occured = False, startup_failed = False, shutdown_failed = False,
                    should_exit = False, asgi_cleared = False \<rparr>,
            tasks = [Finished None], ready = [], getters = [] \<rparr> =
     Some \<lparr> self = \<lparr> config = \<lparr>lifespan = ''auto'', loaded_app = Receive Return Return\<rparr>,
                    logger = [],
                    stdout = [PrintStartupBegin, PrintMainApp, PrintStartupDone,
                              PrintStartupBegin, PrintStartupDone],
                    startup_event = True, shutdown_event = True,
                    receive_queue = [LifespanStartup],
                    error_occured = False, startup_failed = False, shutdown_failed = False,
                    should_exit = False, asgi_cleared = False \<rparr>,
            tasks = [Finished None, Created], ready = [1], getters = [] \<rparr>"
  using
    startup_always_creates_task
      [of "new_world \<lparr>lifespan = ''auto'', loaded_app = Receive Return Return\<rparr>"
          "\<lparr> self = \<lparr> config = \<lparr>lifespan = ''auto'', loaded_app = Receive Return Return\<rparr>,
                    logger = [],
                    stdout = [PrintStartupBegin, PrintMainApp, PrintStartupDone],
                    startup_event = True, shutdown_event = True,
                    receive_queue = [],
                    error_occured = False, startup_failed = False, shutdown_failed = False,
                    should_exit = False, asgi_cleared = False \<rparr>,
            tasks = [Finished None], ready = [], getters = [] \<rparr>"]
    startup_always_creates_task
      [of "\<lparr> self = \<lparr> config = \<lparr>lifespan = ''auto'', loaded_app = Receive Return Return\<rparr>,
                    logger = [],
                    stdout = [PrintStartupBegin, PrintMainApp, PrintStartupDone],
                    startup_event = True, shutdown_event = True,
                    receive_queue = [],
                    error_occured = False, startup_failed = False, shutdown_failed = False,
                    should_exit = False, asgi_cleared = False \<rparr>,
            tasks = [Finished None], ready = [], getters = [] \<rparr>"
          "\<lparr> self = \<lparr> config = \<lparr>lifespan = ''auto'', loaded_app = Receive Return Return\<rparr>,
                    logger = [],
                    stdout = [PrintStartupBegin, PrintMainApp, PrintStartupDone],
                    startup_event = True, shutdown_event = True,
                    receive_queue = [],
                    error_occured = False, startup_failed = False, shutdown_failed = False,
                    should_exit = False, asgi_cleared = False \<rparr>,
            tasks = [Finished None], ready = [], getters = [] \<rparr>"]
  by (simp add: world_defs)

subsection \<open>An application that sends nothing\<close>

lemma run_app_returns_unsent:
  "returns_unsent a (receive_queue s) \<Longrightarrow>
     \<exists>q. run_app a s = (Returned, s\<lparr>receive_queue := q\<rparr>)"
proof (induction a arbitrary: s)
  case Return
  have "s = s\<lparr>receive_queue := receive_queue s\<rparr>" by simp
  then show ?case by (metis run_app.simps(1))
next
  case (Receive k1 k2)
  then obtain m q where q: "receive_queue s = m # q" by (cases "receive_queue s") simp_all
  then have r: "receive s = Some (m, s\<lparr>receive_queue := q\<rparr>)" by (simp add: receive_def)
  show ?case
  proof (cases "m = LifespanStartup")
    case True
    with Receive.prems q have "returns_unsent k1 (receive_queue (s\<lparr>receive_queue := q\<rparr>))" by simp
    from Receive.IH(1) [OF this] r True show ?thesis by simp
  next
    case False
    with Receive.prems q have "returns_unsent k2 (receive_queue (s\<lparr>receive_queue := q\<rparr>))" by simp
    from Receive.IH(2) [OF this] r False show ?thesis by simp
  qed
qed simp_all

lemma run_app_raises_unsent:
  "raises_unsent e a (receive_queue s) \<Longrightarrow>
     \<exists>q. run_app a s = (Raised e, s\<lparr>receive_queue := q\<rparr>)"
proof (induction a arbitrary: s)
  case (Raise e')
  have "s = s\<lparr>receive_queue := receive_queue s\<rparr>" by simp
  with Raise show ?case by (metis raises_unsent.simps(1) run_app.simps(2))
next
  case (Receive k1 k2)
  then obtain m q where q: "receive_queue s = m # q" by (cases "receive_queue s") simp_all
  then have r: "receive s = Some (m, s\<lparr>receive_queue := q\<rparr>)" by (simp add: receive_def)
  show ?case
  proof (cases "m = LifespanStartup")
    case True
    with Receive.prems q have "raises_unsent e k1 (receive_queue (s\<lparr>receive_queue := q\<rparr>))" by simp
    from Receive.IH(1) [OF this] r True show ?thesis by simp
  next
    case False
    with Receive.prems q have "raises_unsent e k2 (receive_queue (s\<lparr>receive_queue := q\<rparr>))" by simp
    from Receive.IH(2) [OF this] r False show ?thesis by simp
  qed
qed simp_all

lemma startup_returns_unsent:
  assumes "returns_unsent a [LifespanStartup]"
  shows "\<exists>w'. startup (new_world \<lparr>lifespan = l, loaded_app = a\<rparr>) = Some w' \<and>
           \<not> error_occured (self w') \<and> logger (self w') = [] \<and> \<not> should_exit (self w')"
proof -
  let ?s = "(init \<lparr>lifespan = l, loaded_app = a\<rparr>)
              \<lparr>stdout := [PrintStartupBegin, PrintMainApp], receive_queue := [LifespanStartup]\<rparr>"
  have "returns_unsent a (receive_queue ?s)" using assms by simp
  from run_app_returns_unsent [OF this] obtain q
    where "run_app a ?s = (Returned, ?s\<lparr>receive_queue := q\<rparr>)" by blast
  then show ?thesis by (simp add: world_defs)
qed

lemma startup_raises_unsent:
  assumes "raises_unsent e a [LifespanStartup]"
  shows "\<exists>w'. startup (new_world \<lparr>lifespan = l, loaded_app = a\<rparr>) = Some w' \<and>
           error_occured (self w') \<and> should_exit (self w') = (l = ''on'') \<and>
           logger (self w') =
             (if l = ''auto''
              then [(INFO, ''ASGI 'lifespan' protocol appears unsupported.'', None)]
              else if l = ''on''
              then [(ERROR, ''Exception in 'lifespan' protocol\<newline>'', Some e),
                    (ERROR, ''Application startup failed. Exiting.'', None)]
              else [(ERROR, ''Exception in 'lifespan' protocol\<newline>'', Some e)])"
proof -
  let ?s = "(init \<lparr>lifespan = l, loaded_app = a\<rparr>)
              \<lparr>stdout := [PrintStartupBegin, PrintMainApp], receive_queue := [LifespanStartup]\<rparr>"
  have "raises_unsent e a (receive_queue ?s)" using assms by simp
  from run_app_raises_unsent [OF this] obtain q
    where "run_app a ?s = (Raised e, ?s\<lparr>receive_queue := q\<rparr>)" by blast
  then show ?thesis by (simp add: world_defs)
qed

text \<open>
  Under mode \<open>on\<close>, an application that returns at once: \<open>startup\<close> returns, the
  \<open>except\<close> clause of \<open>main\<close> has not run, so \<open>error_occured\<close> is false, and
  \<open>should_exit\<close> is false.
\<close>

theorem silent_return_counterexample:
  "startup (new_world \<lparr>lifespan = ''on'', loaded_app = Return\<rparr>) =
     Some \<lparr> self = \<lparr> config = \<lparr>lifespan = ''on'', loaded_app = Return\<rparr>,
                    logger = [],
                    stdout = [PrintStartupBegin, PrintMainApp, PrintStartupDone],
                    startup_event = True, shutdown_event = True,
                    receive_queue = [LifespanStartup],
                    error_occured = False, startup_failed = False, shutdown_failed = False,
                    should_exit = False, asgi_cleared = False \<rparr>,
            tasks = [Finished None], ready = [], getters = [] \<rparr>"
  by (simp add: world_defs)

text \<open>
  Claim C7, amended. On a new object, whatever the mode: if the application
  returns without a call of \<open>send\<close>, \<open>startup\<close> returns, \<open>error_occured\<close> and
  \<open>should_exit\<close> are false and nothing is logged. If the application raises
  without a call of \<open>send\<close>, \<open>startup\<close> returns and \<open>error_occured\<close> is true;
  under mode \<open>auto\<close> one record of level \<open>INFO\<close> is logged and \<open>should_exit\<close> is
  false, under mode \<open>on\<close> \<open>should_exit\<close> is true.
\<close>

theorem silent_application_startup:
  "(returns_unsent a [LifespanStartup] \<longrightarrow>
     (\<exists>w'. startup (new_world \<lparr>lifespan = l, loaded_app = a\<rparr>) = Some w' \<and>
           \<not> error_occured (self w') \<and> logger (self w') = [] \<and> \<not> should_exit (self w'))) \<and>
   (raises_unsent e a [LifespanStartup] \<longrightarrow>
     (\<exists>w'. startup (new_world \<lparr>lifespan = l, loaded_app = a\<rparr>) = Some w' \<and>
           error_occured (self w') \<and> should_exit (self w') = (l = ''on'') \<and>
           logger (self w') =
             (if l = ''auto''
              then [(INFO, ''ASGI 'lifespan' protocol appears unsupported.'', None)]
              else if l = ''on''
              then [(ERROR, ''Exception in 'lifespan' protocol\<newline>'', Some e),
                    (ERROR, ''Application startup failed. Exiting.'', None)]
              else [(ERROR, ''Exception in 'lifespan' protocol\<newline>'', Some e)])))"
  using startup_returns_unsent [of a l] startup_raises_unsent [of e a l] by blast

theorem silent_application_startup_witness:
  "returns_unsent (Receive Return Return) [LifespanStartup] \<and>
   raises_unsent (OtherError ''boom'') (Raise (OtherError ''boom'')) [LifespanStartup] \<and>
   (\<exists>w'. startup (new_world \<lparr>lifespan = ''on'', loaded_app = Receive Return Return\<rparr>) = Some w' \<and>
         \<not> error_occured (self w') \<and> logger (self w') = [] \<and> \<not> should_exit (self w')) \<and>
   (\<exists>w'. startup (new_world \<lparr>lifespan = ''on'', loaded_app = Raise (OtherError ''boom'')\<rparr>) = Some w' \<and>
         error_occured (self w') \<and> should_exit (self w'))"
  using silent_application_startup [of "Receive Return Return" "''on''" "OtherError ''boom''"]
        silent_application_startup [of "Raise (OtherError ''boom'')" "''on''" "OtherError ''boom''"]
  by auto

subsection \<open>The events as latches\<close>

text \<open>
  The application sends \<open>lifespan.startup.complete\<close> and returns. \<open>send\<close> has set
  \<open>startup_event\<close>; the \<open>finally\<close> clause of \<open>main\<close> sets it once more, and the task
  ends without an exception, with nothing logged and \<open>error_occured\<close> false.
  \<open>Event.set\<close> on a set event does nothing.
\<close>

theorem second_set_counterexample:
  "run_app (Send \<lparr>mtype = ''lifespan.startup.complete'', mmessage = None\<rparr> Return)
           (init \<lparr>lifespan = ''on'', loaded_app = Return\<rparr>) =
     (Returned,
      (init \<lparr>lifespan = ''on'', loaded_app = Return\<rparr>)
        \<lparr>stdout := [PrintSendType ''lifespan.startup.complete''], startup_event := True\<rparr>) \<and>
   main_from (Send \<lparr>mtype = ''lifespan.startup.complete'', mmessage = None\<rparr> Return)
             (init \<lparr>lifespan = ''on'', loaded_app = Return\<rparr>) =
     (Finished None,
      (init \<lparr>lifespan = ''on'', loaded_app = Return\<rparr>)
        \<lparr>stdout := [PrintSendType ''lifespan.startup.complete''], startup_event := True,
          shutdown_event := True\<rparr>) \<and>
   main_finally ((init \<lparr>lifespan = ''on'', loaded_app = Return\<rparr>)
                   \<lparr>startup_event := True, shutdown_event := True\<rparr>) =
     (init \<lparr>lifespan = ''on'', loaded_app = Return\<rparr>)\<lparr>startup_event := True, shutdown_event := True\<rparr>"
  by (simp add: main_from_def main_finally_def send_defs init_def)

text \<open>
  Claim C8, amended. An event that is set stays set, through \<open>send\<close> and through
  \<open>main\<close>. A call of \<open>send\<close> that would set an event already set is an assertion
  failure with \<open>STATE_TRANSITION_ERROR\<close>. The \<open>finally\<close> clause of \<open>main\<close> sets both
  events whatever their state and never fails; where both are set already it
  changes nothing.
\<close>

theorem signals_latch:
  "(startup_event s \<and> mtype m \<in> {''lifespan.startup.complete'', ''lifespan.startup.failed''}
      \<longrightarrow> fst (send m s) = Some (AssertionError STATE_TRANSITION_ERROR)) \<and>
   (shutdown_event s \<and> mtype m \<in> {''lifespan.shutdown.complete'', ''lifespan.shutdown.failed''}
      \<longrightarrow> fst (send m s) = Some (AssertionError STATE_TRANSITION_ERROR)) \<and>
   (startup_event s \<longrightarrow> startup_event (snd (send m s)) \<and> startup_event (snd (main_from a s))) \<and>
   (shutdown_event s \<longrightarrow> shutdown_event (snd (send m s)) \<and> shutdown_event (snd (main_from a s))) \<and>
   startup_event (main_finally s) \<and> shutdown_event (main_finally s) \<and>
   (startup_event s \<and> shutdown_event s \<longrightarrow> main_finally s = s)"
proof -
  have 1: "startup_event s \<and> mtype m \<in> {''lifespan.startup.complete'', ''lifespan.startup.failed''}
      \<longrightarrow> fst (send m s) = Some (AssertionError STATE_TRANSITION_ERROR)"
    by (auto simp: send_defs)
  have 2: "shutdown_event s \<and> mtype m \<in> {''lifespan.shutdown.complete'', ''lifespan.shutdown.failed''}
      \<longrightarrow> fst (send m s) = Some (AssertionError STATE_TRANSITION_ERROR)"
    by (auto simp: send_defs)
  obtain t s' where m: "main_from a s = (t, s')" by (cases "main_from a s")
  from main_from_events_mono [OF m] m
  have 3: "(startup_event s \<longrightarrow> startup_event (snd (main_from a s))) \<and>
           (shutdown_event s \<longrightarrow> shutdown_event (snd (main_from a s)))" by simp
  have 4: "startup_event (main_finally s) \<and> shutdown_event (main_finally s) \<and>
           (startup_event s \<and> shutdown_event s \<longrightarrow> main_finally s = s)"
    by (simp add: main_finally_def)
  from 1 2 3 4 send_events_mono [of s m] show ?thesis by blast
qed

theorem signals_latch_witness:
  "startup_event ((init \<lparr>lifespan = ''on'', loaded_app = Return\<rparr>)
                    \<lparr>startup_event := True, shutdown_event := True\<rparr>) \<and>
   fst (send \<lparr>mtype = ''lifespan.startup.complete'', mmessage = None\<rparr>
          ((init \<lparr>lifespan = ''on'', loaded_app = Return\<rparr>)
             \<lparr>startup_event := True, shutdown_event := True\<rparr>))
     = Some (AssertionError STATE_TRANSITION_ERROR) \<and>
   fst (send \<lparr>mtype = ''lifespan.shutdown.failed'', mmessage = None\<rparr>
          ((init \<lparr>lifespan = ''on'', loaded_app = Return\<rparr>)
             \<lparr>startup_event := True, shutdown_event := True\<rparr>))
     = Some (AssertionError STATE_TRANSITION_ERROR) \<and>
   main_finally ((init \<lparr>lifespan = ''on'', loaded_app = Return\<rparr>)
                   \<lparr>startup_event := True, shutdown_event := True\<rparr>) =
     (init \<lparr>lifespan = ''on'', loaded_app = Return\<rparr>)\<lparr>startup_event := True, shutdown_event := True\<rparr>"
  using
    signals_latch
      [of "(init \<lparr>lifespan = ''on'', loaded_app = Return\<rparr>)
             \<lparr>startup_event := True, shutdown_event := True\<rparr>"
          "\<lparr>mtype = ''lifespan.startup.complete'', mmessage = None\<rparr>" Return]
    signals_latch
      [of "(init \<lparr>lifespan = ''on'', loaded_app = Return\<rparr>)
             \<lparr>startup_event := True, shutdown_event := True\<rparr>"
          "\<lparr>mtype = ''lifespan.shutdown.failed'', mmessage = None\<rparr>" Return]
  by simp

subsection \<open>\<open>shutdown\<close> after a reported startup failure\<close>

















end
